theory Spec2Isabelle
  imports Main
begin

section \<open>Values of the JavaScript runtime\<close>

text \<open>
  The numbers that the component stores (chain id, block number, timestamp) are results of
  \<^verbatim>\<open>parseInt\<close> or integer literals: an integer-valued double, given by its value, or
  \<^verbatim>\<open>NaN\<close>.
  Fractional doubles occur only inside expressions of the shape
  \<^verbatim>\<open>(x / Math.pow(10, d)).toFixed(p)\<close>, whose floating-point result is taken from the
  runtime (see \<open>env\<close> below).
\<close>

datatype number = NaN | Num int

text \<open>A thrown value: an \<^verbatim>\<open>Error\<close> instance with its message, or any other value.\<close>

datatype js_exn = ErrorInstance string | OtherThrown

text \<open>The decimal digit for a value below ten.\<close>

definition digitChar :: "nat \<Rightarrow> char" where
  "digitChar d = ''0123456789'' ! d"

function natToString :: "nat \<Rightarrow> string" where
  "natToString n =
     (if n < 10 then [digitChar n] else natToString (n div 10) @ [digitChar (n mod 10)])"
  by pat_completeness auto
termination
  by (relation "measure id") auto

declare natToString.simps [simp del]

section \<open>Data model\<close>

record WalletState =
  isConnected :: bool
  address :: "string option"
  balance :: "string option"
  network :: "string option"
  chainId :: "number option"
  isLoading :: bool
  error :: "string option"

datatype tx_status = Success | Pending | Failed

record Transaction =
  tx_hash :: string
  tx_from :: string
  tx_to :: "string option"
  tx_value :: string
  tx_gasUsed :: string
  tx_gasPrice :: string
  tx_blockNumber :: number
  tx_timestamp :: number
  tx_status :: tx_status

record TokenBalance =
  tb_symbol :: string
  tb_balance :: string
  tb_decimals :: nat
  tb_contractAddress :: string

text \<open>An entry of the token catalog in \<^verbatim>\<open>fetchTokenBalances\<close>.\<close>

record token =
  symbol :: string
  contractAddress :: string
  decimals :: nat

section \<open>The outside world\<close>

text \<open>
  The wallet provider \<^verbatim>\<open>window.ethereum\<close>: the answer of \<^verbatim>\<open>request\<close> to each of the
  five methods the component uses, either a rejection (\<open>Inl\<close>) or a value of the shape the
  wallet protocol gives that method. Within one operation of the component no request is
  issued twice (the three contracts of the catalog differ), so the answers during an
  operation are a function of the request. Every request is answered: a promise that never
  settles (a permission prompt left open) is outside this model.
\<close>

record provider =
  accountsReply :: "js_exn + string list"
  requestAccountsReply :: "js_exn + string list"
  chainIdReply :: "js_exn + string"
  getBalanceReply :: "string \<Rightarrow> js_exn + string"
  callReply :: "string \<Rightarrow> string \<Rightarrow> js_exn + string"

datatype rpc_request =
    eth_accounts
  | eth_requestAccounts
  | eth_chainId
  | eth_getBalance string
  | eth_call string string

text \<open>One raw record of the history service; \<open>raw_to\<close> is \<open>None\<close> for \<^verbatim>\<open>null\<close>.\<close>

record raw_tx =
  raw_hash :: string
  raw_from :: string
  raw_to :: "string option"
  raw_value :: string
  raw_gasUsed :: string
  raw_gasPrice :: string
  raw_blockNumber :: string
  raw_timeStamp :: string
  raw_isError :: string

text \<open>
  The \<^verbatim>\<open>result\<close> member of the decoded payload: a falsy value (absent, \<^verbatim>\<open>null\<close>,
  empty string, zero), a truthy value that is no array (the service's message string, an
  object), or an array. The elements of an array are records of the service's schema, with
  string members.
\<close>

datatype js_result = NoResult | NotAnArray | TxList "raw_tx list"

record payload =
  pl_status :: string
  pl_result :: js_result

text \<open>
  What \<^verbatim>\<open>response.json()\<close> gives: a rejection (the body is no JSON), the value
  \<^verbatim>\<open>null\<close>, or another value, of which the code reads the members \<^verbatim>\<open>status\<close> and
  \<^verbatim>\<open>result\<close> (a value without the status "1" is any payload whose \<open>pl_status\<close> is
  another string).
\<close>

datatype body = InvalidJson | JsonNull | JsonData payload

text \<open>What \<^verbatim>\<open>fetch\<close> gives: a rejection, or a response with its \<^verbatim>\<open>ok\<close> flag.\<close>

datatype fetch_outcome = FetchRejected | Response bool body

record env =
  ethereum :: "provider option"
  fetch :: "string \<Rightarrow> fetch_outcome"
  apiKey :: "string option"
  dateNow :: int
  parseInt :: "string \<Rightarrow> number"
  parseIntHex :: "string \<Rightarrow> number"
  divPow10ToFixed :: "number \<Rightarrow> nat \<Rightarrow> nat \<Rightarrow> string"
  unsafeToString :: "int \<Rightarrow> string"
  typeErrorMessage :: string

text \<open>
  \<^item> \<open>ethereum\<close>: \<^verbatim>\<open>window.ethereum\<close>, \<open>None\<close> when no wallet is injected;
  \<^item> \<open>apiKey\<close>: \<^verbatim>\<open>process.env.NEXT_PUBLIC_ETHERSCAN_API_KEY\<close>;
  \<^item> \<open>dateNow\<close>: \<^verbatim>\<open>Date.now()\<close>, in milliseconds;
  \<^item> \<open>parseInt s\<close>: \<^verbatim>\<open>parseInt(s)\<close>; \<open>parseIntHex s\<close>: \<^verbatim>\<open>parseInt(s, 16)\<close>;
  \<^item> \<open>divPow10ToFixed x d p\<close>: \<^verbatim>\<open>(x / Math.pow(10, d)).toFixed(p)\<close>;
  \<^item> \<open>unsafeToString i\<close>: \<^verbatim>\<open>String(x)\<close> for a number \<open>x\<close> of integer value \<open>i\<close> beyond
    \<^verbatim>\<open>Number.MAX_SAFE_INTEGER\<close> in magnitude, where the runtime prints the shortest digits
    that identify the double (followed by zeros, and in exponent notation from \<open>10^21\<close> on);
  \<^item> \<open>typeErrorMessage\<close>: the message of the \<^verbatim>\<open>TypeError\<close> that the runtime throws when a
    member of \<^verbatim>\<open>undefined\<close> or \<^verbatim>\<open>null\<close> is read.
\<close>

datatype event = Request rpc_request | Fetch string

text \<open>
  The state of the component \<^verbatim>\<open>Web3Wallet\<close>: its four state variables, and the requests it
  has sent to the provider and to the history service, oldest first.
\<close>

record component =
  walletState :: WalletState
  tokenBalances :: "TokenBalance list"
  transactions :: "Transaction list"
  isRefreshing :: bool
  ioLog :: "event list"

definition defaultWalletState :: WalletState where
  "defaultWalletState =
     \<lparr>isConnected = False, address = None, balance = None, network = None, chainId = None,
      isLoading = False, error = None\<rparr>"

definition initialComponent :: component where
  "initialComponent =
     \<lparr>walletState = defaultWalletState, tokenBalances = [], transactions = [],
      isRefreshing = False, ioLog = []\<rparr>"

text \<open>
  \<^verbatim>\<open>window.ethereum.request(...)\<close>: without a provider the member access throws a
  \<^verbatim>\<open>TypeError\<close> and nothing is sent.
\<close>

definition request :: "env \<Rightarrow> rpc_request \<Rightarrow> (provider \<Rightarrow> js_exn + 'a) \<Rightarrow> component
    \<Rightarrow> (js_exn + 'a) \<times> component" where
  "request e req reply st =
     (case ethereum e of
        None \<Rightarrow> (Inl (ErrorInstance (typeErrorMessage e)), st)
      | Some p \<Rightarrow> (reply p, st\<lparr>ioLog := ioLog st @ [Request req]\<rparr>))"

section \<open>Network names\<close>

text \<open>\<^verbatim>\<open>Number.MAX_SAFE_INTEGER\<close>, that is \<open>2^53 - 1\<close>.\<close>

definition maxSafeInteger :: int where
  "maxSafeInteger = 9007199254740991"

text \<open>
  Number-to-string conversion as used by a template literal: for an integer within the safe
  range it is the decimal numeral, with a minus sign for a negative one; beyond the safe
  range it is what the runtime prints.
\<close>

definition numberToString :: "env \<Rightarrow> number \<Rightarrow> string" where
  "numberToString e x =
     (case x of
        NaN \<Rightarrow> ''NaN''
      | Num i \<Rightarrow>
          (if maxSafeInteger < \<bar>i\<bar> then unsafeToString e i
           else if i < 0 then CHR ''-'' # natToString (nat (- i))
           else natToString (nat i)))"

text \<open>The object literal \<^verbatim>\<open>networks\<close> of \<^verbatim>\<open>getNetworkName\<close>, in source order.\<close>

definition networks :: "(int \<times> string) list" where
  "networks =
     [(1, ''Ethereum Mainnet''),
      (3, ''Ropsten Testnet''),
      (4, ''Rinkeby Testnet''),
      (5, ''Goerli Testnet''),
      (11155111, ''Sepolia Testnet''),
      (137, ''Polygon Mainnet''),
      (80001, ''Mumbai Testnet''),
      (56, ''BSC Mainnet''),
      (97, ''BSC Testnet''),
      (42161, ''Arbitrum One''),
      (10, ''Optimism'')]"

text \<open>\<^verbatim>\<open>networks[chainId]\<close>: \<^verbatim>\<open>undefined\<close> (here \<open>None\<close>) for a key that is not in the object.\<close>

definition networksAt :: "number \<Rightarrow> string option" where
  "networksAt cid = (case cid of NaN \<Rightarrow> None | Num i \<Rightarrow> map_of networks i)"

definition unknownNetwork :: "env \<Rightarrow> number \<Rightarrow> string" where
  "unknownNetwork e cid = ''Unknown Network (Chain ID: '' @ numberToString e cid @ '')''"

text \<open>
  \<^verbatim>\<open>networks[chainId] || `Unknown Network (Chain ID: ${chainId})`\<close>: the right operand is
  taken when the left one is \<^verbatim>\<open>undefined\<close> or the empty string.
\<close>

definition getNetworkName :: "env \<Rightarrow> number \<Rightarrow> string" where
  "getNetworkName e cid =
     (case networksAt cid of
        None \<Rightarrow> unknownNetwork e cid
      | Some name \<Rightarrow> (if name = [] then unknownNetwork e cid else name))"

section \<open>Token balances\<close>

definition tokens :: "token list" where
  "tokens =
     [\<lparr>symbol = ''USDC'', contractAddress = ''0xA0b86a33E6417c5c7c4c4c4c4c4c4c4c4c4c4c4c'',
       decimals = 6\<rparr>,
      \<lparr>symbol = ''USDT'', contractAddress = ''0xdAC17F958D2ee523a2206206994597C13D831ec7'',
       decimals = 6\<rparr>,
      \<lparr>symbol = ''DAI'', contractAddress = ''0x6B175474E89094C44Da98b954EedeAC495271d0F'',
       decimals = 18\<rparr>]"

text \<open>\<^verbatim>\<open>s.padStart(n, c)\<close> for a one-character pad string: never shortens \<open>s\<close>.\<close>

definition padStart :: "nat \<Rightarrow> char \<Rightarrow> string \<Rightarrow> string" where
  "padStart n c s = replicate (n - length s) c @ s"

text \<open>\<^verbatim>\<open>'0x70a08231' + address.slice(2).padStart(64, '0')\<close>\<close>

definition callData :: "string \<Rightarrow> string" where
  "callData addr = ''0x70a08231'' @ padStart 64 (CHR ''0'') (drop 2 addr)"

text \<open>
  \<^verbatim>\<open>x / Math.pow(10, d) > 0\<close> for \<open>x\<close> an integer or \<^verbatim>\<open>NaN\<close>: the quotient of a positive
  integer is positive as long as the power of ten is finite (up to \<open>d = 308\<close>; the catalog has
  6 and 18), and \<^verbatim>\<open>NaN > 0\<close> is false.
\<close>

definition quotientPositive :: "number \<Rightarrow> nat \<Rightarrow> bool" where
  "quotientPositive x d = (case x of NaN \<Rightarrow> False | Num i \<Rightarrow> 0 < i \<and> d \<le> 308)"

text \<open>
  The loop \<^verbatim>\<open>for (const token of tokens)\<close> with its local array \<^verbatim>\<open>balances\<close>. The inner
  \<^verbatim>\<open>catch\<close> swallows a failed call and the loop goes on with the next token.
\<close>

fun tokenLoop :: "env \<Rightarrow> string \<Rightarrow> token list \<Rightarrow> TokenBalance list \<Rightarrow> component
    \<Rightarrow> TokenBalance list \<times> component" where
  "tokenLoop e addr [] balances st = (balances, st)"
| "tokenLoop e addr (t # ts) balances st =
     (case request e (eth_call (contractAddress t) (callData addr))
             (\<lambda>p. callReply p (contractAddress t) (callData addr)) st of
        (Inl err, st') \<Rightarrow> tokenLoop e addr ts balances st'
      | (Inr result, st') \<Rightarrow>
          (let balanceWei = parseIntHex e result in
           if quotientPositive balanceWei (decimals t)
           then tokenLoop e addr ts
                  (balances @
                   [\<lparr>tb_symbol = symbol t,
                     tb_balance = divPow10ToFixed e balanceWei (decimals t) 2,
                     tb_decimals = decimals t,
                     tb_contractAddress = contractAddress t\<rparr>]) st'
           else tokenLoop e addr ts balances st'))"

text \<open>
  \<^verbatim>\<open>fetchTokenBalances\<close> for a given catalog; the source has the catalog \<open>tokens\<close> as a
  local constant. Nothing outside the inner \<^verbatim>\<open>try\<close> can throw, so the outer \<^verbatim>\<open>catch\<close>
  is never entered.
\<close>

definition fetchTokenBalancesOf :: "token list \<Rightarrow> env \<Rightarrow> string \<Rightarrow> component \<Rightarrow> component" where
  "fetchTokenBalancesOf catalog e addr st =
     (case tokenLoop e addr catalog [] st of
        (balances, st') \<Rightarrow> st'\<lparr>tokenBalances := balances\<rparr>)"

definition fetchTokenBalances :: "env \<Rightarrow> string \<Rightarrow> component \<Rightarrow> component" where
  "fetchTokenBalances = fetchTokenBalancesOf tokens"

section \<open>Transaction history\<close>

definition formatTransaction :: "env \<Rightarrow> raw_tx \<Rightarrow> Transaction" where
  "formatTransaction e tx =
     \<lparr>tx_hash = raw_hash tx,
      tx_from = raw_from tx,
      tx_to = raw_to tx,
      tx_value = divPow10ToFixed e (parseInt e (raw_value tx)) 18 6,
      tx_gasUsed = raw_gasUsed tx,
      tx_gasPrice = divPow10ToFixed e (parseInt e (raw_gasPrice tx)) 9 2,
      tx_blockNumber = parseInt e (raw_blockNumber tx),
      tx_timestamp = parseInt e (raw_timeStamp tx),
      tx_status = (if raw_isError tx = ''0'' then Success else Failed)\<rparr>"

definition mockTransactions :: "env \<Rightarrow> string \<Rightarrow> Transaction list" where
  "mockTransactions e addr =
     [\<lparr>tx_hash = ''0x1234567890abcdef1234567890abcdef12345678'',
       tx_from = addr,
       tx_to = Some ''0x9876543210fedcba9876543210fedcba98765432'',
       tx_value = ''0.123456'',
       tx_gasUsed = ''21000'',
       tx_gasPrice = ''20.5'',
       tx_blockNumber = Num 12345678,
       tx_timestamp = Num (dateNow e - 3600000),
       tx_status = Success\<rparr>]"

text \<open>\<^verbatim>\<open>process.env.NEXT_PUBLIC_ETHERSCAN_API_KEY || 'demo'\<close>\<close>

definition apiKeyOrDemo :: "env \<Rightarrow> string" where
  "apiKeyOrDemo e = (case apiKey e of None \<Rightarrow> ''demo'' | Some k \<Rightarrow> (if k = [] then ''demo'' else k))"

definition txlistUrl :: "env \<Rightarrow> string \<Rightarrow> string" where
  "txlistUrl e addr =
     ''https://api.etherscan.io/api?module=account&action=txlist&address='' @ addr @
     ''&sort=desc&apikey='' @ apiKeyOrDemo e"

text \<open>
  \<^verbatim>\<open>fetchTransactions\<close>. The \<^verbatim>\<open>catch\<close> block (the mock list) is entered when \<^verbatim>\<open>fetch\<close>
  or \<^verbatim>\<open>response.json()\<close> rejects, when \<^verbatim>\<open>data\<close> is \<^verbatim>\<open>null\<close> (reading
  \<^verbatim>\<open>data.status\<close> throws), and when \<^verbatim>\<open>data.result\<close> is truthy but
  \<^verbatim>\<open>data.result.slice(0, 10).map\<close> is no function. A response that is not \<^verbatim>\<open>ok\<close>, a
  status other than \<^verbatim>\<open>'1'\<close> and a falsy \<^verbatim>\<open>result\<close> fall through both
  \<^verbatim>\<open>if\<close>s, which have no \<^verbatim>\<open>else\<close>.
\<close>

definition fetchTransactions :: "env \<Rightarrow> string \<Rightarrow> component \<Rightarrow> component" where
  "fetchTransactions e addr st =
     (let st1 = st\<lparr>ioLog := ioLog st @ [Fetch (txlistUrl e addr)]\<rparr>;
          caught = st1\<lparr>transactions := mockTransactions e addr\<rparr>
      in case fetch e (txlistUrl e addr) of
           FetchRejected \<Rightarrow> caught
         | Response ok b \<Rightarrow>
             (if ok then
                (case b of
                   InvalidJson \<Rightarrow> caught
                 | JsonNull \<Rightarrow> caught
                 | JsonData d \<Rightarrow>
                     (if pl_status d = ''1'' then
                        (case pl_result d of
                           NoResult \<Rightarrow> st1
                         | NotAnArray \<Rightarrow> caught
                         | TxList txs \<Rightarrow>
                             st1\<lparr>transactions := map (formatTransaction e) (take 10 txs)\<rparr>)
                      else st1))
              else st1))"

section \<open>Connecting, disconnecting, refreshing\<close>

text \<open>
  The \<^verbatim>\<open>catch\<close> block of \<^verbatim>\<open>connectWallet\<close>:
  \<^verbatim>\<open>error instanceof Error ? error.message : 'Failed to connect wallet'\<close>, then a functional
  update of the wallet state.
\<close>

definition errorMessageOf :: "js_exn \<Rightarrow> string" where
  "errorMessageOf err =
     (case err of ErrorInstance m \<Rightarrow> m | OtherThrown \<Rightarrow> ''Failed to connect wallet'')"

definition connectCatch :: "js_exn \<Rightarrow> component \<Rightarrow> component" where
  "connectCatch err st =
     st\<lparr>walletState := (walletState st)\<lparr>isLoading := False, error := Some (errorMessageOf err)\<rparr>\<rparr>"

text \<open>
  \<^verbatim>\<open>connectWallet\<close>. Every statement of the \<^verbatim>\<open>try\<close> block that can throw is a branch
  that ends in \<open>connectCatch\<close>; \<^verbatim>\<open>fetchTokenBalances\<close> and \<^verbatim>\<open>fetchTransactions\<close>
  catch their own failures.
\<close>

definition connectWallet :: "env \<Rightarrow> component \<Rightarrow> component" where
  "connectWallet e st =
     (let st1 = st\<lparr>walletState := (walletState st)\<lparr>isLoading := True, error := None\<rparr>\<rparr>
      in case request e eth_requestAccounts requestAccountsReply st1 of
           (Inl err, st2) \<Rightarrow> connectCatch err st2
         | (Inr accounts, st2) \<Rightarrow>
             (case accounts of
                [] \<Rightarrow> connectCatch (ErrorInstance ''No accounts found'') st2
              | addr # _ \<Rightarrow>
                  (case request e eth_chainId chainIdReply st2 of
                     (Inl err, st3) \<Rightarrow> connectCatch err st3
                   | (Inr chainIdHex, st3) \<Rightarrow>
                       (case request e (eth_getBalance addr) (\<lambda>p. getBalanceReply p addr) st3 of
                          (Inl err, st4) \<Rightarrow> connectCatch err st4
                        | (Inr balanceWei, st4) \<Rightarrow>
                            fetchTransactions e addr
                              (fetchTokenBalances e addr
                                 (st4\<lparr>walletState :=
                                    \<lparr>isConnected = True,
                                     address = Some addr,
                                     balance = Some (divPow10ToFixed e (parseIntHex e balanceWei) 18 6),
                                     network = Some (getNetworkName e (parseIntHex e chainIdHex)),
                                     chainId = Some (parseIntHex e chainIdHex),
                                     isLoading = False,
                                     error = None\<rparr>\<rparr>))))))"

definition disconnectWallet :: "component \<Rightarrow> component" where
  "disconnectWallet st =
     st\<lparr>walletState :=
          \<lparr>isConnected = False, address = None, balance = None, network = None, chainId = None,
           isLoading = False, error = None\<rparr>,
        tokenBalances := [],
        transactions := []\<rparr>"

text \<open>
  \<^verbatim>\<open>refreshWalletData\<close>. \<^verbatim>\<open>!walletState.address\<close> holds for \<^verbatim>\<open>null\<close> and for the empty
  string. The \<^verbatim>\<open>finally\<close> block runs after the \<^verbatim>\<open>try\<close> block and after the
  \<^verbatim>\<open>catch\<close> block alike.
\<close>

definition refreshWalletData :: "env \<Rightarrow> component \<Rightarrow> component" where
  "refreshWalletData e st =
     (case address (walletState st) of
        None \<Rightarrow> st
      | Some addr \<Rightarrow>
          (if addr = [] then st
           else
             (let st1 = st\<lparr>isRefreshing := True\<rparr>;
                  st3 =
                    (case request e (eth_getBalance addr) (\<lambda>p. getBalanceReply p addr) st1 of
                       (Inl err, st2) \<Rightarrow> st2
                     | (Inr balanceWei, st2) \<Rightarrow>
                         fetchTransactions e addr
                           (fetchTokenBalances e addr
                              (st2\<lparr>walletState := (walletState st2)
                                 \<lparr>balance := Some (divPow10ToFixed e (parseIntHex e balanceWei) 18 6)\<rparr>\<rparr>)))
              in st3\<lparr>isRefreshing := False\<rparr>)))"

text \<open>
  \<^verbatim>\<open>checkWalletConnection\<close>, run once when the component is mounted. Its \<^verbatim>\<open>catch\<close> block
  only logs; \<^verbatim>\<open>connectWallet\<close> never throws.
\<close>

definition checkWalletConnection :: "env \<Rightarrow> component \<Rightarrow> component" where
  "checkWalletConnection e st =
     (case ethereum e of
        None \<Rightarrow> st
      | Some p \<Rightarrow>
          (case request e eth_accounts accountsReply st of
             (Inl err, st1) \<Rightarrow> st1
           | (Inr accounts, st1) \<Rightarrow>
               (if length accounts > 0 then connectWallet e st1 else st1)))"

section \<open>Concrete environments\<close>

text \<open>
  An account, a provider and an environment on which the operations are run below. The
  provider has authorised the account, is on chain 1 and holds 1 ETH; the USDC call is
  rejected, the USDT balance is zero and the DAI balance is 2000000 base units. The
  runtime functions are given on the strings and numbers that occur in these runs, with
  the values the JavaScript runtime computes there.
\<close>

definition exampleAddress :: string where
  "exampleAddress = ''0x52908400098527886E0F7030069857D2E4169EE7''"

definition exampleProvider :: provider where
  "exampleProvider =
     \<lparr>accountsReply = Inr [exampleAddress],
      requestAccountsReply = Inr [exampleAddress],
      chainIdReply = Inr ''0x1'',
      getBalanceReply = (\<lambda>a. Inr ''0xde0b6b3a7640000''),
      callReply = (\<lambda>to d.
        if to = ''0xA0b86a33E6417c5c7c4c4c4c4c4c4c4c4c4c4c4c''
        then Inl (ErrorInstance ''execution reverted'')
        else if to = ''0xdAC17F958D2ee523a2206206994597C13D831ec7'' then Inr ''0x0''
        else Inr ''0x1e8480'')\<rparr>"

definition exampleParseIntHex :: "string \<Rightarrow> number" where
  "exampleParseIntHex s =
     (if s = ''0x0'' then Num 0
      else if s = ''0x1'' then Num 1
      else if s = ''0x1e8480'' then Num 2000000
      else if s = ''0xde0b6b3a7640000'' then Num 1000000000000000000
      else NaN)"

definition exampleParseInt :: "string \<Rightarrow> number" where
  "exampleParseInt s =
     (if s = ''0'' then Num 0
      else if s = ''100'' then Num 100
      else if s = ''200'' then Num 200
      else NaN)"

definition exampleDivPow10ToFixed :: "number \<Rightarrow> nat \<Rightarrow> nat \<Rightarrow> string" where
  "exampleDivPow10ToFixed x d p =
     (if x = Num 1000000000000000000 \<and> d = 18 \<and> p = 6 then ''1.000000''
      else if x = Num 2000000 \<and> d = 18 \<and> p = 2 then ''0.00''
      else if x = Num 2000000 \<and> d = 6 \<and> p = 2 then ''2.00''
      else if x = Num 0 \<and> p = 6 then ''0.000000''
      else if x = Num 0 \<and> p = 2 then ''0.00''
      else ''NaN'')"

definition exampleUnsafeToString :: "int \<Rightarrow> string" where
  "exampleUnsafeToString i =
     (if i = 1000000000000000000000 then ''1e+21''
      else if i = 1152921504606846976 then ''1152921504606847000''
      else ''Infinity'')"

text \<open>The history service cannot be reached: \<^verbatim>\<open>fetch\<close> rejects.\<close>

definition exampleEnv :: env where
  "exampleEnv =
     \<lparr>ethereum = Some exampleProvider,
      fetch = (\<lambda>url. FetchRejected),
      apiKey = None,
      dateNow = 1700000000000,
      parseInt = exampleParseInt,
      parseIntHex = exampleParseIntHex,
      divPow10ToFixed = exampleDivPow10ToFixed,
      unsafeToString = exampleUnsafeToString,
      typeErrorMessage = ''Cannot read properties of undefined''\<rparr>"

text \<open>The history service answers with HTTP status 500 and a body that is no JSON.\<close>

definition exampleEnvHttp500 :: env where
  "exampleEnvHttp500 = exampleEnv\<lparr>fetch := (\<lambda>url. Response False InvalidJson)\<rparr>"

text \<open>
  The history service answers with two records, the older one first or the newer one
  first.
\<close>

definition exampleTxOlder :: raw_tx where
  "exampleTxOlder =
     \<lparr>raw_hash = ''0xaa'', raw_from = exampleAddress, raw_to = None, raw_value = ''0'',
      raw_gasUsed = ''21000'', raw_gasPrice = ''0'', raw_blockNumber = ''100'',
      raw_timeStamp = ''100'', raw_isError = ''0''\<rparr>"

definition exampleTxNewer :: raw_tx where
  "exampleTxNewer =
     \<lparr>raw_hash = ''0xbb'', raw_from = exampleAddress, raw_to = None, raw_value = ''0'',
      raw_gasUsed = ''21000'', raw_gasPrice = ''0'', raw_blockNumber = ''200'',
      raw_timeStamp = ''200'', raw_isError = ''1''\<rparr>"

definition exampleEnvAscending :: env where
  "exampleEnvAscending =
     exampleEnv\<lparr>fetch := (\<lambda>url. Response True
       (JsonData \<lparr>pl_status = ''1'', pl_result = TxList [exampleTxOlder, exampleTxNewer]\<rparr>))\<rparr>"

definition exampleEnvDescending :: env where
  "exampleEnvDescending =
     exampleEnv\<lparr>fetch := (\<lambda>url. Response True
       (JsonData \<lparr>pl_status = ''1'', pl_result = TxList [exampleTxNewer, exampleTxOlder]\<rparr>))\<rparr>"

text \<open>\<^verbatim>\<open>a >= b\<close> on numbers: false as soon as one side is \<^verbatim>\<open>NaN\<close>.\<close>

definition numberGe :: "number \<Rightarrow> number \<Rightarrow> bool" where
  "numberGe a b = (case a of NaN \<Rightarrow> False | Num i \<Rightarrow> (case b of NaN \<Rightarrow> False | Num j \<Rightarrow> j \<le> i))"

text \<open>A provider whose USDT balance is positive as well.\<close>

definition exampleProviderTwo :: provider where
  "exampleProviderTwo =
     exampleProvider\<lparr>callReply := (\<lambda>to d.
        if to = ''0xA0b86a33E6417c5c7c4c4c4c4c4c4c4c4c4c4c4c''
        then Inl (ErrorInstance ''execution reverted'')
        else Inr ''0x1e8480'')\<rparr>"

definition exampleEnvTwo :: env where
  "exampleEnvTwo = exampleEnv\<lparr>ethereum := Some exampleProviderTwo\<rparr>"


definition exampleEnvNoAccounts :: env where
  "exampleEnvNoAccounts =
     exampleEnv\<lparr>ethereum := Some (exampleProvider\<lparr>requestAccountsReply := Inr []\<rparr>)\<rparr>"





section \<open>Decimal numerals\<close>




section \<open>Requests, the token loop and the frame of the fetches\<close>


lemma request_provider:
  "ethereum e = Some p \<Longrightarrow>
   request e req reply st = (reply p, st\<lparr>ioLog := ioLog st @ [Request req]\<rparr>)"
  by (simp add: request_def)


lemma tokenLoop_provider:
  "ethereum e = Some p \<Longrightarrow>
   tokenLoop e addr ts bs st =
     (bs @ concat (map (\<lambda>t.
        case callReply p (contractAddress t) (callData addr) of
          Inl err \<Rightarrow> []
        | Inr r \<Rightarrow>
            if quotientPositive (parseIntHex e r) (decimals t)
            then [\<lparr>tb_symbol = symbol t,
                   tb_balance = divPow10ToFixed e (parseIntHex e r) (decimals t) 2,
                   tb_decimals = decimals t,
                   tb_contractAddress = contractAddress t\<rparr>]
            else []) ts),
      st\<lparr>ioLog := ioLog st @
        map (\<lambda>t. Request (eth_call (contractAddress t) (callData addr))) ts\<rparr>)"
proof (induction ts arbitrary: bs st)
  case Nil
  then show ?case by simp
next
  case (Cons t ts)
  show ?case
  proof (cases "callReply p (contractAddress t) (callData addr)")
    case (Inl err)
    then show ?thesis
      using Cons.prems by (simp add: request_provider Cons.IH)
  next
    case (Inr r)
    then show ?thesis
      using Cons.prems by (simp add: request_provider Cons.IH Let_def)
  qed
qed


lemma fetchTransactions_frame:
  "walletState (fetchTransactions e addr st) = walletState st \<and>
   tokenBalances (fetchTransactions e addr st) = tokenBalances st \<and>
   isRefreshing (fetchTransactions e addr st) = isRefreshing st \<and>
   ioLog (fetchTransactions e addr st) = ioLog st @ [Fetch (txlistUrl e addr)]"
  by (simp add: fetchTransactions_def Let_def
      split: fetch_outcome.split body.split js_result.split)

lemma length_concat_le:
  "(\<And>x. length (f x) \<le> (if P x then 1 else 0)) \<Longrightarrow>
   length (concat (map f xs)) \<le> length (filter P xs)"
proof (induction xs)
  case Nil
  then show ?case by simp
next
  case (Cons x xs)
  from Cons.prems [of x] Cons.IH [OF Cons.prems] show ?case
    by (simp split: if_splits)
qed

lemma length_concat_eq:
  "(\<And>x. x \<in> set xs \<Longrightarrow> length (f x) = (if P x then 1 else 0)) \<Longrightarrow>
   length (concat (map f xs)) = length (filter P xs)"
  by (induction xs) simp_all

section \<open>The paths of connecting\<close>



lemma connectWallet_accounts_rejected:
  "ethereum e = Some p \<Longrightarrow> requestAccountsReply p = Inl err \<Longrightarrow>
   connectWallet e st =
     st\<lparr>walletState := (walletState st)\<lparr>isLoading := False, error := Some (errorMessageOf err)\<rparr>,
        ioLog := ioLog st @ [Request eth_requestAccounts]\<rparr>"
  by (simp add: connectWallet_def request_provider connectCatch_def)

lemma connectWallet_no_accounts:
  "ethereum e = Some p \<Longrightarrow> requestAccountsReply p = Inr [] \<Longrightarrow>
   connectWallet e st =
     st\<lparr>walletState := (walletState st)\<lparr>isLoading := False, error := Some ''No accounts found''\<rparr>,
        ioLog := ioLog st @ [Request eth_requestAccounts]\<rparr>"
  by (simp add: connectWallet_def request_provider connectCatch_def errorMessageOf_def)

lemma connectWallet_chainId_rejected:
  "ethereum e = Some p \<Longrightarrow> requestAccountsReply p = Inr (a # as) \<Longrightarrow>
   chainIdReply p = Inl err \<Longrightarrow>
   connectWallet e st =
     st\<lparr>walletState := (walletState st)\<lparr>isLoading := False, error := Some (errorMessageOf err)\<rparr>,
        ioLog := ioLog st @ [Request eth_requestAccounts, Request eth_chainId]\<rparr>"
  by (simp add: connectWallet_def request_provider connectCatch_def)

lemma connectWallet_balance_rejected:
  "ethereum e = Some p \<Longrightarrow> requestAccountsReply p = Inr (a # as) \<Longrightarrow>
   chainIdReply p = Inr c \<Longrightarrow> getBalanceReply p a = Inl err \<Longrightarrow>
   connectWallet e st =
     st\<lparr>walletState := (walletState st)\<lparr>isLoading := False, error := Some (errorMessageOf err)\<rparr>,
        ioLog := ioLog st @ [Request eth_requestAccounts, Request eth_chainId,
          Request (eth_getBalance a)]\<rparr>"
  by (simp add: connectWallet_def request_provider connectCatch_def)

lemma connectWallet_success:
  "ethereum e = Some p \<Longrightarrow> requestAccountsReply p = Inr (a # as) \<Longrightarrow>
   chainIdReply p = Inr c \<Longrightarrow> getBalanceReply p a = Inr w \<Longrightarrow>
   connectWallet e st =
     fetchTransactions e a
       (fetchTokenBalances e a
          (st\<lparr>ioLog := ioLog st @ [Request eth_requestAccounts, Request eth_chainId,
               Request (eth_getBalance a)],
             walletState :=
               \<lparr>isConnected = True, address = Some a,
                balance = Some (divPow10ToFixed e (parseIntHex e w) 18 6),
                network = Some (getNetworkName e (parseIntHex e c)),
                chainId = Some (parseIntHex e c), isLoading = False, error = None\<rparr>\<rparr>))"
  by (simp add: connectWallet_def request_provider)


lemma connectWallet_first_request:
  "ethereum e = Some p \<Longrightarrow>
   \<exists>rest. ioLog (connectWallet e st) = ioLog st @ [Request eth_requestAccounts] @ rest"
proof -
  assume p: "ethereum e = Some p"
  show ?thesis
  proof (cases "requestAccountsReply p")
    case (Inl err)
    with p show ?thesis by (simp add: connectWallet_accounts_rejected)
  next
    case (Inr accounts)
    show ?thesis
    proof (cases accounts)
      case Nil
      with p Inr show ?thesis by (simp add: connectWallet_no_accounts)
    next
      case (Cons a as)
      show ?thesis
      proof (cases "chainIdReply p")
        case (Inl err)
        with p Inr Cons show ?thesis by (simp add: connectWallet_chainId_rejected)
      next
        case c: (Inr c)
        show ?thesis
        proof (cases "getBalanceReply p a")
          case (Inl err)
          with p Inr Cons c show ?thesis by (simp add: connectWallet_balance_rejected)
        next
          case w: (Inr w)
          from p Inr Cons c w show ?thesis
            by (simp add: connectWallet_success fetchTransactions_frame fetchTokenBalances_def
                fetchTokenBalancesOf_def tokenLoop_provider)
        qed
      qed
    qed
  qed
qed

section \<open>The network registry\<close>



section \<open>Decimal numerals of the identifiers\<close>














section \<open>Disconnecting\<close>

text \<open>
  C4. From every prior state, \<open>disconnectWallet\<close> leaves the wallet state in the default
  disconnected shape (not connected; address, balance, network, chain id and error absent;
  not loading) and empties the token-balance list and the transaction list. It sends no
  request and does not touch the refreshing flag.
\<close>

theorem disconnectWallet_resets:
  "walletState (disconnectWallet st) = defaultWalletState \<and>
   walletState (disconnectWallet st) =
     \<lparr>isConnected = False, address = None, balance = None, network = None, chainId = None,
      isLoading = False, error = None\<rparr> \<and>
   tokenBalances (disconnectWallet st) = [] \<and>
   transactions (disconnectWallet st) = [] \<and>
   isRefreshing (disconnectWallet st) = isRefreshing st \<and>
   ioLog (disconnectWallet st) = ioLog st"
  by (simp add: disconnectWallet_def defaultWalletState_def)

section \<open>Refreshing without an address\<close>

text \<open>
  C10. When the wallet state holds no address (\<^verbatim>\<open>null\<close>, or the empty string, which the
  test \<^verbatim>\<open>!walletState.address\<close> treats alike), \<open>refreshWalletData\<close> returns the component
  as it was: no wallet-state field, token balance, transaction or refreshing flag changes,
  and the request log is the same, so no provider or service request was sent.
\<close>

theorem refreshWalletData_no_address:
  "address (walletState st) = None \<or> address (walletState st) = Some [] \<Longrightarrow>
   refreshWalletData e st = st"
  by (auto simp: refreshWalletData_def)

theorem refreshWalletData_no_address_witness:
  "address (walletState initialComponent) = None \<and>
   refreshWalletData exampleEnv initialComponent = initialComponent"
proof -
  have a: "address (walletState initialComponent) = None"
    by (simp add: initialComponent_def defaultWalletState_def)
  then show ?thesis using refreshWalletData_no_address [of initialComponent exampleEnv] by simp
qed

section \<open>The fallback of the history fetch\<close>

text \<open>
  C1, as the claim states it, fails: when the history service answers with a non-success
  HTTP status, \<open>fetchTransactions\<close> leaves the transaction list as it was (here empty)
  instead of installing a placeholder.
\<close>

theorem fetchTransactions_http_error_counterexample:
  "fetch exampleEnvHttp500 (txlistUrl exampleEnvHttp500 exampleAddress) = Response False InvalidJson \<and>
   transactions (fetchTransactions exampleEnvHttp500 exampleAddress initialComponent) = []"
  by (simp add: fetchTransactions_def exampleEnvHttp500_def initialComponent_def Let_def)

text \<open>
  C1, amended. When \<^verbatim>\<open>fetch\<close> rejects, the body is no JSON or is \<^verbatim>\<open>null\<close>, or the payload
  has status "1" and a truthy result that is no array, the transaction list becomes exactly
  one placeholder record, from the connected address, with status \<open>Success\<close>. When the
  service answers with a non-success HTTP status, or with a payload whose status is not "1"
  or whose result is falsy, the transaction list is left unchanged. \<open>fetchTransactions\<close>
  has no error result: every throw of the source is caught inside it. Nothing is stated
  about the timestamp of the placeholder: the source takes it from \<^verbatim>\<open>Date.now()\<close>, in
  milliseconds, while the records of the service carry seconds.
\<close>

theorem fetchTransactions_fallback:
  "((fetch e (txlistUrl e addr) = FetchRejected \<or>
     fetch e (txlistUrl e addr) = Response True InvalidJson \<or>
     fetch e (txlistUrl e addr) = Response True JsonNull \<or>
     fetch e (txlistUrl e addr) = Response True (JsonData \<lparr>pl_status = ''1'', pl_result = NotAnArray\<rparr>))
    \<longrightarrow>
      (\<exists>ts. transactions (fetchTransactions e addr st) =
         [\<lparr>tx_hash = ''0x1234567890abcdef1234567890abcdef12345678'',
           tx_from = addr,
           tx_to = Some ''0x9876543210fedcba9876543210fedcba98765432'',
           tx_value = ''0.123456'',
           tx_gasUsed = ''21000'',
           tx_gasPrice = ''20.5'',
           tx_blockNumber = Num 12345678,
           tx_timestamp = ts,
           tx_status = Success\<rparr>]) \<and>
      length (transactions (fetchTransactions e addr st)) = 1 \<and>
      tx_status (hd (transactions (fetchTransactions e addr st))) = Success) \<and>
   (((\<exists>b. fetch e (txlistUrl e addr) = Response False b) \<or>
     (\<exists>d. fetch e (txlistUrl e addr) = Response True (JsonData d) \<and>
          (pl_status d \<noteq> ''1'' \<or> pl_result d = NoResult)))
    \<longrightarrow> transactions (fetchTransactions e addr st) = transactions st)"
  by (auto simp: fetchTransactions_def Let_def mockTransactions_def
      split: fetch_outcome.split body.split js_result.split)

theorem fetchTransactions_fallback_witness:
  "fetch exampleEnv (txlistUrl exampleEnv exampleAddress) = FetchRejected \<and>
   length (transactions (fetchTransactions exampleEnv exampleAddress initialComponent)) = 1 \<and>
   tx_status (hd (transactions (fetchTransactions exampleEnv exampleAddress initialComponent))) = Success \<and>
   fetch exampleEnvHttp500 (txlistUrl exampleEnvHttp500 exampleAddress) = Response False InvalidJson \<and>
   transactions (fetchTransactions exampleEnvHttp500 exampleAddress initialComponent) =
     transactions initialComponent"
proof -
  have a: "fetch exampleEnv (txlistUrl exampleEnv exampleAddress) = FetchRejected"
    by (simp add: exampleEnv_def)
  have b: "fetch exampleEnvHttp500 (txlistUrl exampleEnvHttp500 exampleAddress) = Response False InvalidJson"
    by (simp add: exampleEnvHttp500_def)
  note T1 = fetchTransactions_fallback [of exampleEnv exampleAddress initialComponent,
      THEN conjunct1, rule_format]
  note T2 = fetchTransactions_fallback [of exampleEnvHttp500 exampleAddress initialComponent,
      THEN conjunct2, rule_format]
  have l: "length (transactions (fetchTransactions exampleEnv exampleAddress initialComponent)) = 1"
    and s: "tx_status (hd (transactions (fetchTransactions exampleEnv exampleAddress
      initialComponent))) = Success"
    using T1 a by simp_all
  have u: "transactions (fetchTransactions exampleEnvHttp500 exampleAddress initialComponent) =
     transactions initialComponent"
    by (rule T2) (simp add: b)
  from a l s b u show ?thesis by (intro conjI)
qed

section \<open>The normalised history\<close>

text \<open>
  C6, as the claim states it, fails: the records are kept in the order of the response and
  are not sorted, so a response that lists an older record before a newer one yields a
  history in ascending order.
\<close>

theorem fetchTransactions_order_counterexample:
  "fetch exampleEnvAscending (txlistUrl exampleEnvAscending exampleAddress) =
     Response True (JsonData \<lparr>pl_status = ''1'', pl_result = TxList [exampleTxOlder, exampleTxNewer]\<rparr>) \<and>
   map tx_timestamp (transactions (fetchTransactions exampleEnvAscending exampleAddress initialComponent))
     = [Num 100, Num 200] \<and>
   \<not> numberGe (Num 100) (Num 200)"
  by (simp add: fetchTransactions_def Let_def exampleEnvAscending_def exampleEnv_def
      formatTransaction_def exampleParseInt_def exampleTxNewer_def exampleTxOlder_def numberGe_def)

text \<open>
  C6, amended. For a response with status "1" whose result is a list, the history is the
  first ten records of the response (all of them when there are fewer), normalised one by
  one in the order of the response; each status is \<open>Success\<close> exactly when the error flag
  is "0" and \<open>Failed\<close> otherwise, never \<open>Pending\<close>. Hence, when the response is ordered by
  descending recency (for any relation \<open>newer\<close> on the parsed timestamps), the history is
  in descending recency order and every record it keeps is at least as recent as every
  record it drops.
\<close>

theorem fetchTransactions_first_ten:
  "fetch e (txlistUrl e addr) = Response True (JsonData d) \<Longrightarrow>
   pl_status d = ''1'' \<Longrightarrow> pl_result d = TxList txs \<Longrightarrow>
   transactions (fetchTransactions e addr st) = map (formatTransaction e) (take 10 txs) \<and>
   length (transactions (fetchTransactions e addr st)) = min 10 (length txs) \<and>
   (\<forall>i < length (transactions (fetchTransactions e addr st)).
      tx_hash (transactions (fetchTransactions e addr st) ! i) = raw_hash (txs ! i) \<and>
      tx_timestamp (transactions (fetchTransactions e addr st) ! i) =
        parseInt e (raw_timeStamp (txs ! i)) \<and>
      tx_status (transactions (fetchTransactions e addr st) ! i) =
        (if raw_isError (txs ! i) = ''0'' then Success else Failed) \<and>
      tx_status (transactions (fetchTransactions e addr st) ! i) \<noteq> Pending) \<and>
   (sorted_wrt (\<lambda>x y. newer (parseInt e (raw_timeStamp x)) (parseInt e (raw_timeStamp y))) txs
    \<longrightarrow>
      sorted_wrt (\<lambda>a b. newer (tx_timestamp a) (tx_timestamp b))
        (transactions (fetchTransactions e addr st)) \<and>
      (\<forall>a \<in> set (transactions (fetchTransactions e addr st)). \<forall>y \<in> set (drop 10 txs).
         newer (tx_timestamp a) (parseInt e (raw_timeStamp y))))"
proof -
  assume f: "fetch e (txlistUrl e addr) = Response True (JsonData d)"
    and s: "pl_status d = ''1''" and r: "pl_result d = TxList txs"
  let ?R = "\<lambda>x y. newer (parseInt e (raw_timeStamp x)) (parseInt e (raw_timeStamp y))"
  have eq: "transactions (fetchTransactions e addr st) = map (formatTransaction e) (take 10 txs)"
    using f s r by (simp add: fetchTransactions_def Let_def)
  have len: "length (transactions (fetchTransactions e addr st)) = min 10 (length txs)"
    by (simp add: eq min.commute)
  have each: "\<forall>i < length (transactions (fetchTransactions e addr st)).
      tx_hash (transactions (fetchTransactions e addr st) ! i) = raw_hash (txs ! i) \<and>
      tx_timestamp (transactions (fetchTransactions e addr st) ! i) =
        parseInt e (raw_timeStamp (txs ! i)) \<and>
      tx_status (transactions (fetchTransactions e addr st) ! i) =
        (if raw_isError (txs ! i) = ''0'' then Success else Failed) \<and>
      tx_status (transactions (fetchTransactions e addr st) ! i) \<noteq> Pending"
    by (simp add: eq formatTransaction_def)
  have ord: "sorted_wrt (\<lambda>a b. newer (tx_timestamp a) (tx_timestamp b))
        (transactions (fetchTransactions e addr st)) \<and>
      (\<forall>a \<in> set (transactions (fetchTransactions e addr st)). \<forall>y \<in> set (drop 10 txs).
         newer (tx_timestamp a) (parseInt e (raw_timeStamp y)))"
    if srt: "sorted_wrt ?R txs"
  proof -
    from srt have "sorted_wrt ?R (take 10 txs @ drop 10 txs)" by simp
    then have k: "sorted_wrt ?R (take 10 txs)"
      and c: "\<forall>x \<in> set (take 10 txs). \<forall>y \<in> set (drop 10 txs). ?R x y"
      unfolding sorted_wrt_append by blast+
    from k have "sorted_wrt (\<lambda>a b. newer (tx_timestamp a) (tx_timestamp b))
        (transactions (fetchTransactions e addr st))"
      by (simp add: eq sorted_wrt_map formatTransaction_def)
    moreover from c have "\<forall>a \<in> set (transactions (fetchTransactions e addr st)).
        \<forall>y \<in> set (drop 10 txs). newer (tx_timestamp a) (parseInt e (raw_timeStamp y))"
      by (simp add: eq formatTransaction_def)
    ultimately show ?thesis by blast
  qed
  from eq len each ord show ?thesis by blast
qed

theorem fetchTransactions_first_ten_witness:
  "fetch exampleEnvDescending (txlistUrl exampleEnvDescending exampleAddress) =
     Response True (JsonData \<lparr>pl_status = ''1'', pl_result = TxList [exampleTxNewer, exampleTxOlder]\<rparr>) \<and>
   sorted_wrt (\<lambda>x y. numberGe (parseInt exampleEnvDescending (raw_timeStamp x))
                               (parseInt exampleEnvDescending (raw_timeStamp y)))
     [exampleTxNewer, exampleTxOlder] \<and>
   map tx_timestamp (transactions (fetchTransactions exampleEnvDescending exampleAddress initialComponent))
     = [Num 200, Num 100] \<and>
   map tx_status (transactions (fetchTransactions exampleEnvDescending exampleAddress initialComponent))
     = [Failed, Success] \<and>
   sorted_wrt (\<lambda>a b. numberGe (tx_timestamp a) (tx_timestamp b))
     (transactions (fetchTransactions exampleEnvDescending exampleAddress initialComponent))"
proof -
  have f: "fetch exampleEnvDescending (txlistUrl exampleEnvDescending exampleAddress) =
     Response True (JsonData \<lparr>pl_status = ''1'', pl_result = TxList [exampleTxNewer, exampleTxOlder]\<rparr>)"
    by (simp add: exampleEnvDescending_def)
  have p: "parseInt exampleEnvDescending = exampleParseInt"
    by (simp add: exampleEnvDescending_def exampleEnv_def)
  have srt: "sorted_wrt (\<lambda>x y. numberGe (parseInt exampleEnvDescending (raw_timeStamp x))
                               (parseInt exampleEnvDescending (raw_timeStamp y)))
     [exampleTxNewer, exampleTxOlder]"
    by (simp add: p exampleParseInt_def exampleTxNewer_def exampleTxOlder_def numberGe_def)
  have t: "formatTransaction exampleEnvDescending exampleTxNewer =
      \<lparr>tx_hash = ''0xbb'', tx_from = exampleAddress, tx_to = None, tx_value = ''0.000000'',
       tx_gasUsed = ''21000'', tx_gasPrice = ''0.00'', tx_blockNumber = Num 200,
       tx_timestamp = Num 200, tx_status = Failed\<rparr>"
    "formatTransaction exampleEnvDescending exampleTxOlder =
      \<lparr>tx_hash = ''0xaa'', tx_from = exampleAddress, tx_to = None, tx_value = ''0.000000'',
       tx_gasUsed = ''21000'', tx_gasPrice = ''0.00'', tx_blockNumber = Num 100,
       tx_timestamp = Num 100, tx_status = Success\<rparr>"
    by (simp_all add: formatTransaction_def exampleEnvDescending_def exampleEnv_def
        exampleParseInt_def exampleDivPow10ToFixed_def exampleTxNewer_def exampleTxOlder_def)
  let ?out = "transactions (fetchTransactions exampleEnvDescending exampleAddress initialComponent)"
  have s: "pl_status \<lparr>pl_status = ''1'', pl_result = TxList [exampleTxNewer, exampleTxOlder]\<rparr> = ''1''"
    by simp
  have r: "pl_result \<lparr>pl_status = ''1'', pl_result = TxList [exampleTxNewer, exampleTxOlder]\<rparr>
      = TxList [exampleTxNewer, exampleTxOlder]"
    by simp
  note T = fetchTransactions_first_ten [OF f s r, of initialComponent numberGe]
  from T [THEN conjunct1]
  have eq: "?out = [formatTransaction exampleEnvDescending exampleTxNewer,
      formatTransaction exampleEnvDescending exampleTxOlder]"
    by simp
  from T [THEN conjunct2, THEN conjunct2, THEN conjunct2] srt
  have o: "sorted_wrt (\<lambda>a b. numberGe (tx_timestamp a) (tx_timestamp b)) ?out"
    by blast
  have m: "map tx_timestamp ?out = [Num 200, Num 100]" "map tx_status ?out = [Failed, Success]"
    by (simp_all add: eq t)
  from f srt m o show ?thesis by blast
qed

section \<open>Token balances with failing calls\<close>

text \<open>
  C5, as the claim states it, fails in its last part: a token whose call succeeds with a
  balance of zero is left out as well, so a catalog of three tokens with exactly one
  failing call can give fewer than two entries (here one).
\<close>

theorem fetchTokenBalances_zero_balance_counterexample:
  "ethereum exampleEnv = Some exampleProvider \<and>
   length tokens = 3 \<and>
   length (filter (\<lambda>t. isl (callReply exampleProvider (contractAddress t) (callData exampleAddress)))
     tokens) = 1 \<and>
   map tb_symbol (tokenBalances (fetchTokenBalances exampleEnv exampleAddress initialComponent)) =
     [''DAI''] \<and>
   length (tokenBalances (fetchTokenBalances exampleEnv exampleAddress initialComponent)) \<noteq> 2"
  by (simp add: fetchTokenBalances_def fetchTokenBalancesOf_def tokens_def request_def
      exampleEnv_def exampleProvider_def exampleParseIntHex_def quotientPositive_def)

text \<open>
  C5, amended. For every token catalog and every pattern of failing contract calls (with a
  provider injected), every token of the catalog gets its call, whatever happened to the
  tokens before it, and the result lists, in catalog order, exactly the tokens whose call
  succeeds with a positive balance: a token whose call fails contributes nothing, and every
  entry of the result comes from a call that succeeded. So the result has at most as many
  entries as there are successful calls, and exactly as many when every successful call
  returns a positive balance; in particular, with a catalog of 3 tokens and exactly 1
  failing call it has at most 2 entries, and exactly 2 when the two successful calls return
  positive balances.
\<close>

theorem fetchTokenBalances_skips_failures:
  "ethereum e = Some p \<Longrightarrow>
   tokenBalances (fetchTokenBalancesOf catalog e addr st) =
     concat (map (\<lambda>t.
        case callReply p (contractAddress t) (callData addr) of
          Inl err \<Rightarrow> []
        | Inr r \<Rightarrow>
            if quotientPositive (parseIntHex e r) (decimals t)
            then [\<lparr>tb_symbol = symbol t,
                   tb_balance = divPow10ToFixed e (parseIntHex e r) (decimals t) 2,
                   tb_decimals = decimals t,
                   tb_contractAddress = contractAddress t\<rparr>]
            else []) catalog) \<and>
   ioLog (fetchTokenBalancesOf catalog e addr st) =
     ioLog st @ map (\<lambda>t. Request (eth_call (contractAddress t) (callData addr))) catalog \<and>
   (\<forall>b \<in> set (tokenBalances (fetchTokenBalancesOf catalog e addr st)).
      \<exists>r. callReply p (tb_contractAddress b) (callData addr) = Inr r) \<and>
   length (tokenBalances (fetchTokenBalancesOf catalog e addr st)) \<le>
     length (filter (\<lambda>t. \<not> isl (callReply p (contractAddress t) (callData addr))) catalog) \<and>
   ((\<forall>t \<in> set catalog. \<forall>r. callReply p (contractAddress t) (callData addr) = Inr r \<longrightarrow>
        quotientPositive (parseIntHex e r) (decimals t)) \<longrightarrow>
    length (tokenBalances (fetchTokenBalancesOf catalog e addr st)) =
      length (filter (\<lambda>t. \<not> isl (callReply p (contractAddress t) (callData addr))) catalog)) \<and>
   (length catalog = 3 \<and>
    length (filter (\<lambda>t. isl (callReply p (contractAddress t) (callData addr))) catalog) = 1 \<longrightarrow>
      length (tokenBalances (fetchTokenBalancesOf catalog e addr st)) \<le> 2 \<and>
      ((\<forall>t \<in> set catalog. \<forall>r. callReply p (contractAddress t) (callData addr) = Inr r \<longrightarrow>
           quotientPositive (parseIntHex e r) (decimals t)) \<longrightarrow>
       length (tokenBalances (fetchTokenBalancesOf catalog e addr st)) = 2))"
proof -
  assume p: "ethereum e = Some p"
  let ?out = "tokenBalances (fetchTokenBalancesOf catalog e addr st)"
  let ?f = "\<lambda>t.
        case callReply p (contractAddress t) (callData addr) of
          Inl err \<Rightarrow> []
        | Inr r \<Rightarrow>
            if quotientPositive (parseIntHex e r) (decimals t)
            then [\<lparr>tb_symbol = symbol t,
                   tb_balance = divPow10ToFixed e (parseIntHex e r) (decimals t) 2,
                   tb_decimals = decimals t,
                   tb_contractAddress = contractAddress t\<rparr>]
            else []"
  let ?ok = "\<lambda>t. \<not> isl (callReply p (contractAddress t) (callData addr))"
  let ?pos = "\<forall>t \<in> set catalog. \<forall>r. callReply p (contractAddress t) (callData addr) = Inr r \<longrightarrow>
        quotientPositive (parseIntHex e r) (decimals t)"
  have eq: "?out = concat (map ?f catalog)"
    by (simp add: fetchTokenBalancesOf_def tokenLoop_provider [OF p])
  have log: "ioLog (fetchTokenBalancesOf catalog e addr st) =
     ioLog st @ map (\<lambda>t. Request (eth_call (contractAddress t) (callData addr))) catalog"
    by (simp add: fetchTokenBalancesOf_def tokenLoop_provider [OF p])
  have src: "\<forall>b \<in> set ?out. \<exists>r. callReply p (tb_contractAddress b) (callData addr) = Inr r"
    unfolding eq by (auto split: sum.splits if_splits) metis
  have le: "length ?out \<le> length (filter ?ok catalog)"
    unfolding eq by (rule length_concat_le) (simp split: sum.split)
  have ex: "length ?out = length (filter ?ok catalog)" if pos: ?pos
    unfolding eq
  proof (rule length_concat_eq)
    fix t assume "t \<in> set catalog"
    with pos show "length (?f t) = (if ?ok t then 1 else 0)"
      by (cases "callReply p (contractAddress t) (callData addr)") simp_all
  qed
  have cnt: "length (filter ?ok catalog) = 2"
    if "length catalog = 3"
      and "length (filter (\<lambda>t. isl (callReply p (contractAddress t) (callData addr))) catalog) = 1"
    using that sum_length_filter_compl [of "\<lambda>t. isl (callReply p (contractAddress t) (callData addr))" catalog]
    by simp
  from eq log src le ex cnt show ?thesis by (metis (no_types, lifting))
qed

theorem fetchTokenBalances_skips_failures_witness:
  "ethereum exampleEnvTwo = Some exampleProviderTwo \<and>
   length tokens = 3 \<and>
   length (filter (\<lambda>t. isl (callReply exampleProviderTwo (contractAddress t) (callData exampleAddress)))
     tokens) = 1 \<and>
   length (tokenBalances (fetchTokenBalancesOf tokens exampleEnvTwo exampleAddress initialComponent)) = 2"
proof -
  have p: "ethereum exampleEnvTwo = Some exampleProviderTwo"
    by (simp add: exampleEnvTwo_def)
  have n: "length tokens = 3"
    by (simp add: tokens_def)
  have f: "length (filter (\<lambda>t. isl (callReply exampleProviderTwo (contractAddress t)
      (callData exampleAddress))) tokens) = 1"
    by (simp add: tokens_def exampleProviderTwo_def)
  have pos: "\<forall>t \<in> set tokens. \<forall>r.
      callReply exampleProviderTwo (contractAddress t) (callData exampleAddress) = Inr r \<longrightarrow>
      quotientPositive (parseIntHex exampleEnvTwo r) (decimals t)"
    by (simp add: tokens_def exampleProviderTwo_def exampleEnvTwo_def exampleEnv_def
        exampleParseIntHex_def quotientPositive_def)
  note T = fetchTokenBalances_skips_failures [OF p, of tokens exampleAddress initialComponent]
  from T n f pos
  have "length (tokenBalances (fetchTokenBalancesOf tokens exampleEnvTwo exampleAddress
      initialComponent)) = 2"
    by blast
  with p n f show ?thesis by blast
qed

section \<open>The call data of a balance query\<close>

text \<open>
  C9. For every owner address \<open>0x\<close>\<open>h\<close> (with \<open>h\<close> of at most 64 characters, as every
  20-byte address is), the call data is the selector \<open>0x70a08231\<close> followed by \<open>h\<close>
  left-padded with zeros to exactly 64 characters, and this is the data of the
  \<^verbatim>\<open>eth_call\<close> request that \<open>fetchTokenBalances\<close> sends to each token contract of the
  catalog.
\<close>

theorem callData_encoding:
  "ethereum e = Some p \<Longrightarrow> length h \<le> 64 \<Longrightarrow>
   callData (''0x'' @ h) = ''0x70a08231'' @ replicate (64 - length h) (CHR ''0'') @ h \<and>
   length (replicate (64 - length h) (CHR ''0'') @ h) = 64 \<and>
   ioLog (fetchTokenBalances e (''0x'' @ h) st) =
     ioLog st @
     map (\<lambda>t. Request (eth_call (contractAddress t)
                 (''0x70a08231'' @ replicate (64 - length h) (CHR ''0'') @ h))) tokens"
proof -
  assume p: "ethereum e = Some p" and h: "length h \<le> 64"
  have c: "callData (''0x'' @ h) = ''0x70a08231'' @ replicate (64 - length h) (CHR ''0'') @ h"
    by (simp add: callData_def padStart_def)
  have l: "length (replicate (64 - length h) (CHR ''0'') @ h) = 64"
    using h by simp
  have "ioLog (fetchTokenBalances e (''0x'' @ h) st) =
     ioLog st @ map (\<lambda>t. Request (eth_call (contractAddress t) (callData (''0x'' @ h)))) tokens"
    by (simp add: fetchTokenBalances_def fetchTokenBalancesOf_def tokenLoop_provider [OF p])
  with c l show ?thesis by simp
qed

theorem callData_encoding_witness:
  "ethereum exampleEnv = Some exampleProvider \<and>
   length ''52908400098527886E0F7030069857D2E4169EE7'' \<le> 64 \<and>
   callData ''0x52908400098527886E0F7030069857D2E4169EE7'' =
     ''0x70a0823100000000000000000000000052908400098527886E0F7030069857D2E4169EE7'' \<and>
   ioLog (fetchTokenBalances exampleEnv ''0x52908400098527886E0F7030069857D2E4169EE7''
     initialComponent) =
     [Request (eth_call ''0xA0b86a33E6417c5c7c4c4c4c4c4c4c4c4c4c4c4c''
        ''0x70a0823100000000000000000000000052908400098527886E0F7030069857D2E4169EE7''),
      Request (eth_call ''0xdAC17F958D2ee523a2206206994597C13D831ec7''
        ''0x70a0823100000000000000000000000052908400098527886E0F7030069857D2E4169EE7''),
      Request (eth_call ''0x6B175474E89094C44Da98b954EedeAC495271d0F''
        ''0x70a0823100000000000000000000000052908400098527886E0F7030069857D2E4169EE7'')]"
proof -
  have p: "ethereum exampleEnv = Some exampleProvider"
    by (simp add: exampleEnv_def)
  have h: "length ''52908400098527886E0F7030069857D2E4169EE7'' \<le> 64"
    by simp
  have r: "replicate 24 (CHR ''0'') = ''000000000000000000000000''"
    by (simp add: numeral_eq_Suc)
  from callData_encoding [OF p h, of initialComponent] p h show ?thesis
    by (simp add: r tokens_def initialComponent_def)
qed

section \<open>Connecting without accounts\<close>

text \<open>
  C7. When the accounts-access request returns an empty account list, \<open>connectWallet\<close>
  ends with the error message "No accounts found"; apart from the error and the loading
  flag (reset to false) the wallet state is what it was before the call, so a disconnected
  session stays disconnected, with no address and no balance; the token balances and the
  transactions are untouched, and no request follows the accounts-access request.
\<close>

theorem connectWallet_no_accounts_found:
  "ethereum e = Some p \<Longrightarrow> requestAccountsReply p = Inr [] \<Longrightarrow>
   error (walletState (connectWallet e st)) = Some ''No accounts found'' \<and>
   walletState (connectWallet e st) =
     (walletState st)\<lparr>isLoading := False, error := Some ''No accounts found''\<rparr> \<and>
   isConnected (walletState (connectWallet e st)) = isConnected (walletState st) \<and>
   address (walletState (connectWallet e st)) = address (walletState st) \<and>
   balance (walletState (connectWallet e st)) = balance (walletState st) \<and>
   tokenBalances (connectWallet e st) = tokenBalances st \<and>
   transactions (connectWallet e st) = transactions st \<and>
   ioLog (connectWallet e st) = ioLog st @ [Request eth_requestAccounts]"
  by (simp add: connectWallet_no_accounts)

theorem connectWallet_no_accounts_found_witness:
  "ethereum exampleEnvNoAccounts = Some (exampleProvider\<lparr>requestAccountsReply := Inr []\<rparr>) \<and>
   requestAccountsReply (exampleProvider\<lparr>requestAccountsReply := Inr []\<rparr>) = Inr [] \<and>
   walletState (connectWallet exampleEnvNoAccounts initialComponent) =
     \<lparr>isConnected = False, address = None, balance = None, network = None, chainId = None,
      isLoading = False, error = Some ''No accounts found''\<rparr>"
proof -
  have p: "ethereum exampleEnvNoAccounts = Some (exampleProvider\<lparr>requestAccountsReply := Inr []\<rparr>)"
    by (simp add: exampleEnvNoAccounts_def)
  have r: "requestAccountsReply (exampleProvider\<lparr>requestAccountsReply := Inr []\<rparr>) = Inr []"
    by simp
  from connectWallet_no_accounts_found [OF p r, of initialComponent] p r show ?thesis
    by (simp add: initialComponent_def defaultWalletState_def)
qed

section \<open>Failures of the mandatory connect steps\<close>





section \<open>The startup probe\<close>

text \<open>
  C2, as the claim states it, fails: when the non-prompting accounts query returns an
  account, the startup probe calls \<open>connectWallet\<close>, whose first request to the provider is
  the accounts-access request \<^verbatim>\<open>eth_requestAccounts\<close>.
\<close>

theorem checkWalletConnection_prompting_counterexample:
  "ethereum exampleEnv = Some exampleProvider \<and>
   accountsReply exampleProvider = Inr [exampleAddress] \<and>
   take 2 (ioLog (checkWalletConnection exampleEnv initialComponent)) =
     [Request eth_accounts, Request eth_requestAccounts]"
proof -
  have p: "ethereum exampleEnv = Some exampleProvider"
    by (simp add: exampleEnv_def)
  have a: "accountsReply exampleProvider = Inr [exampleAddress]"
    by (simp add: exampleProvider_def)
  have l: "ioLog initialComponent = []"
    by (simp add: initialComponent_def)
  obtain rest where
    "ioLog (connectWallet exampleEnv (initialComponent\<lparr>ioLog := [Request eth_accounts]\<rparr>)) =
       [Request eth_accounts] @ [Request eth_requestAccounts] @ rest"
    using connectWallet_first_request [OF p, of "initialComponent\<lparr>ioLog := [Request eth_accounts]\<rparr>"]
    by auto
  then have "take 2 (ioLog (checkWalletConnection exampleEnv initialComponent)) =
     [Request eth_accounts, Request eth_requestAccounts]"
    by (simp add: checkWalletConnection_def p a request_provider [OF p] l)
  with p a show ?thesis by blast
qed

text \<open>
  C2, amended. The startup probe itself sends only the non-prompting accounts query
  \<^verbatim>\<open>eth_accounts\<close>: with no provider injected it sends nothing and changes nothing; when
  the query is rejected or returns no account, nothing else is sent and nothing else changes.
  When the query returns a non-empty account list, the probe runs \<open>connectWallet\<close>, the same
  path as an explicit connect, so the request that follows \<^verbatim>\<open>eth_accounts\<close> is the
  accounts-access request \<^verbatim>\<open>eth_requestAccounts\<close>.
\<close>

theorem checkWalletConnection_requests:
  "(ethereum e = None \<longrightarrow> checkWalletConnection e st = st) \<and>
   (ethereum e = Some p \<and> ((\<exists>err. accountsReply p = Inl err) \<or> accountsReply p = Inr []) \<longrightarrow>
      checkWalletConnection e st = st\<lparr>ioLog := ioLog st @ [Request eth_accounts]\<rparr>) \<and>
   (ethereum e = Some p \<and> accountsReply p = Inr (a # as) \<longrightarrow>
      checkWalletConnection e st =
        connectWallet e (st\<lparr>ioLog := ioLog st @ [Request eth_accounts]\<rparr>) \<and>
      (\<exists>rest. ioLog (checkWalletConnection e st) =
         ioLog st @ [Request eth_accounts, Request eth_requestAccounts] @ rest))"
proof (intro conjI impI)
  assume "ethereum e = None"
  then show "checkWalletConnection e st = st"
    by (simp add: checkWalletConnection_def)
next
  assume "ethereum e = Some p \<and> ((\<exists>err. accountsReply p = Inl err) \<or> accountsReply p = Inr [])"
  then show "checkWalletConnection e st = st\<lparr>ioLog := ioLog st @ [Request eth_accounts]\<rparr>"
    by (auto simp: checkWalletConnection_def request_provider)
next
  assume h: "ethereum e = Some p \<and> accountsReply p = Inr (a # as)"
  then show c: "checkWalletConnection e st =
        connectWallet e (st\<lparr>ioLog := ioLog st @ [Request eth_accounts]\<rparr>)"
    by (simp add: checkWalletConnection_def request_provider)
  from h connectWallet_first_request [of e p "st\<lparr>ioLog := ioLog st @ [Request eth_accounts]\<rparr>"]
  show "\<exists>rest. ioLog (checkWalletConnection e st) =
         ioLog st @ [Request eth_accounts, Request eth_requestAccounts] @ rest"
    by (simp add: c)
qed

theorem checkWalletConnection_requests_witness:
  "ethereum exampleEnvNoAccounts = Some (exampleProvider\<lparr>requestAccountsReply := Inr []\<rparr>) \<and>
   accountsReply (exampleProvider\<lparr>requestAccountsReply := Inr []\<rparr>) = Inr [exampleAddress] \<and>
   ioLog (checkWalletConnection exampleEnvNoAccounts initialComponent) =
     [Request eth_accounts, Request eth_requestAccounts] \<and>
   ethereum (exampleEnv\<lparr>ethereum := None\<rparr>) = None \<and>
   checkWalletConnection (exampleEnv\<lparr>ethereum := None\<rparr>) initialComponent = initialComponent \<and>
   ethereum (exampleEnv\<lparr>ethereum := Some (exampleProvider\<lparr>accountsReply := Inr []\<rparr>)\<rparr>) =
     Some (exampleProvider\<lparr>accountsReply := Inr []\<rparr>) \<and>
   accountsReply (exampleProvider\<lparr>accountsReply := Inr []\<rparr>) = Inr [] \<and>
   ioLog (checkWalletConnection
     (exampleEnv\<lparr>ethereum := Some (exampleProvider\<lparr>accountsReply := Inr []\<rparr>)\<rparr>)
     initialComponent) = [Request eth_accounts]"
proof -
  let ?p = "exampleProvider\<lparr>requestAccountsReply := Inr []\<rparr>"
  let ?q = "exampleProvider\<lparr>accountsReply := Inr []\<rparr>"
  let ?e = "exampleEnv\<lparr>ethereum := Some ?q\<rparr>"
  have p: "ethereum exampleEnvNoAccounts = Some ?p"
    by (simp add: exampleEnvNoAccounts_def)
  have a: "accountsReply ?p = Inr [exampleAddress]"
    by (simp add: exampleProvider_def)
  have r: "requestAccountsReply ?p = Inr []"
    by simp
  have n: "ethereum (exampleEnv\<lparr>ethereum := None\<rparr>) = None"
    by simp
  have q: "ethereum ?e = Some ?q" "accountsReply ?q = Inr []"
    by simp_all
  from checkWalletConnection_requests [of exampleEnvNoAccounts initialComponent ?p exampleAddress "[]"]
    p a
  have "checkWalletConnection exampleEnvNoAccounts initialComponent =
      connectWallet exampleEnvNoAccounts
        (initialComponent\<lparr>ioLog := ioLog initialComponent @ [Request eth_accounts]\<rparr>)"
    by blast
  then have l: "ioLog (checkWalletConnection exampleEnvNoAccounts initialComponent) =
     [Request eth_accounts, Request eth_requestAccounts]"
    by (simp add: connectWallet_no_accounts [OF p r] initialComponent_def)
  from checkWalletConnection_requests [of "exampleEnv\<lparr>ethereum := None\<rparr>" initialComponent] n
  have c: "checkWalletConnection (exampleEnv\<lparr>ethereum := None\<rparr>) initialComponent = initialComponent"
    by blast
  from checkWalletConnection_requests [of ?e initialComponent ?q] q
  have "checkWalletConnection ?e initialComponent =
      initialComponent\<lparr>ioLog := ioLog initialComponent @ [Request eth_accounts]\<rparr>"
    by blast
  then have m: "ioLog (checkWalletConnection ?e initialComponent) = [Request eth_accounts]"
    by (simp add: initialComponent_def)
  from p a l n c q m show ?thesis by blast
qed

end
